theory Spec2Isabelle
  imports Complex_Main "HOL-Library.AList" "HOL-Library.Sublist"
begin

section \<open>Login hardening and content validation of the fydemy CMS core\<close>

text \<open>
  The package stores markdown content behind a pluggable storage provider, authenticates
  one administrator and hardens the login endpoint with a rate limiter. The development
  follows the TypeScript modules of \<^verbatim>\<open>packages/core/src\<close>:
  \<^verbatim>\<open>utils/rate-limit.ts\<close>, \<^verbatim>\<open>utils/validation.ts\<close>, \<^verbatim>\<open>auth/login.ts\<close>,
  \<^verbatim>\<open>auth/session.ts\<close>, \<^verbatim>\<open>content/storage.ts\<close>, \<^verbatim>\<open>content/markdown.ts\<close>,
  \<^verbatim>\<open>content/directory.ts\<close>, \<^verbatim>\<open>content/collection.ts\<close>, \<^verbatim>\<open>content/upload.ts\<close>
  and \<^verbatim>\<open>api/handlers.ts\<close>.

  Conventions. A JavaScript string is a \<^typ>\<open>string\<close> whose characters are the code
  units \<open>0..255\<close>; on such strings \<^verbatim>\<open>.length\<close> is \<^const>\<open>length\<close>. A \<^verbatim>\<open>throw\<close>
  (or a rejected promise) is the left injection of a sum, a normal return the right one.
  \<^verbatim>\<open>Date.now()\<close> is an explicit argument in milliseconds, module-level mutable state is
  passed in and returned, and \<^verbatim>\<open>process.env\<close> is a record of optional strings.
\<close>

subsection \<open>Rate limiter (\<^verbatim>\<open>utils/rate-limit.ts\<close>)\<close>

record RateLimitEntry =
  count :: int
  resetTime :: int

type_synonym rateLimitStore = "string \<rightharpoonup> RateLimitEntry"

text \<open>The object returned by \<^verbatim>\<open>checkRateLimit\<close>; its \<^verbatim>\<open>resetTime\<close> property is the
  field \<open>resetTimeOut\<close>, since the entry already owns the name.\<close>

record RateLimitResult =
  isLimited :: bool
  remaining :: int
  resetTimeOut :: int

definition MAX_ATTEMPTS :: int where
  "MAX_ATTEMPTS = 5"

definition WINDOW_MS :: int where
  "WINDOW_MS = 15 * 60 * 1000"

definition checkRateLimit ::
  "int \<Rightarrow> rateLimitStore \<Rightarrow> string \<Rightarrow> RateLimitResult \<times> rateLimitStore" where
  "checkRateLimit now store identifier =
     (let fresh =
            (\<lparr>isLimited = False, remaining = MAX_ATTEMPTS, resetTimeOut = now + WINDOW_MS\<rparr>,
             store(identifier \<mapsto> \<lparr>count = 0, resetTime = now + WINDOW_MS\<rparr>))
      in case store identifier of
           None \<Rightarrow> fresh
         | Some entry \<Rightarrow>
             if now > resetTime entry then fresh
             else if count entry \<ge> MAX_ATTEMPTS then
               (\<lparr>isLimited = True, remaining = 0, resetTimeOut = resetTime entry\<rparr>, store)
             else
               (\<lparr>isLimited = False, remaining = MAX_ATTEMPTS - count entry,
                 resetTimeOut = resetTime entry\<rparr>, store))"

definition incrementRateLimit :: "int \<Rightarrow> rateLimitStore \<Rightarrow> string \<Rightarrow> rateLimitStore" where
  "incrementRateLimit now store identifier =
     (case store identifier of
        None \<Rightarrow> store(identifier \<mapsto> \<lparr>count = 1, resetTime = now + WINDOW_MS\<rparr>)
      | Some entry \<Rightarrow>
          if now > resetTime entry
          then store(identifier \<mapsto> \<lparr>count = 1, resetTime = now + WINDOW_MS\<rparr>)
          else store(identifier \<mapsto> entry\<lparr>count := count entry + 1\<rparr>))"

definition resetRateLimit :: "rateLimitStore \<Rightarrow> string \<Rightarrow> rateLimitStore" where
  "resetRateLimit store identifier = store(identifier := None)"

subsection \<open>Errors\<close>

text \<open>One constructor for each \<^verbatim>\<open>throw new Error(...)\<close> of the package, named after its
  message, and one for each failure of a library or backend the package calls.\<close>

datatype error =
    InvalidFilePath
  | NullByteDetected
  | TraversalDetected
  | DangerousCharacters
  | UsernameRequired
  | UsernameTooLong
  | UsernameInvalidChars
  | PasswordRequired
  | PasswordTooLong
  | CredentialsNotConfigured
  | SessionSecretTooShort
  | ContentSizeExceeded nat
  | FileSizeExceeded nat
  | RangeError
  | ENOENT
  | EISDIR
  | HttpError nat
  | TypeError
  | LibraryError string

subsection \<open>Strings\<close>

text \<open>\<^verbatim>\<open>s.includes(sub)\<close>; \<^verbatim>\<open>s.startsWith(p)\<close> is \<^term>\<open>prefix p s\<close>.\<close>

fun str_includes :: "string \<Rightarrow> string \<Rightarrow> bool" where
  "str_includes [] sub = (sub = [])"
| "str_includes (c # cs) sub = (prefix sub (c # cs) \<or> str_includes cs sub)"

text \<open>\<^verbatim>\<open>s.split(c)\<close> for a separator of one character.\<close>

fun str_split :: "string \<Rightarrow> char \<Rightarrow> string list" where
  "str_split [] c = [[]]"
| "str_split (x # xs) c =
     (if x = c then [] # str_split xs c
      else (case str_split xs c of [] \<Rightarrow> [[x]] | s # ss \<Rightarrow> (x # s) # ss))"

text \<open>\<^verbatim>\<open>segments.join(sep)\<close>.\<close>

fun str_join :: "string list \<Rightarrow> string \<Rightarrow> string" where
  "str_join [] sep = []"
| "str_join [s] sep = s"
| "str_join (s # t # ss) sep = s @ sep @ str_join (t # ss) sep"

text \<open>\<^verbatim>\<open>s.replace(pat, rep)\<close> with a string pattern: the first occurrence only.\<close>

fun str_replace :: "string \<Rightarrow> string \<Rightarrow> string \<Rightarrow> string" where
  "str_replace [] pat rep = (if pat = [] then rep else [])"
| "str_replace (c # cs) pat rep =
     (if prefix pat (c # cs) then rep @ drop (length pat) (c # cs)
      else c # str_replace cs pat rep)"

text \<open>\<^verbatim>\<open>s.replace(/\x00/g, "")\<close>.\<close>

definition stripNullBytes :: "string \<Rightarrow> string" where
  "stripNullBytes s = filter (\<lambda>c. c \<noteq> CHR 0x00) s"

definition isDigit :: "char \<Rightarrow> bool" where
  "isDigit c = (48 \<le> (of_char c :: nat) \<and> (of_char c :: nat) \<le> 57)"

definition isUpper :: "char \<Rightarrow> bool" where
  "isUpper c = (65 \<le> (of_char c :: nat) \<and> (of_char c :: nat) \<le> 90)"

definition isLower :: "char \<Rightarrow> bool" where
  "isLower c = (97 \<le> (of_char c :: nat) \<and> (of_char c :: nat) \<le> 122)"

text \<open>The case folding of the \<^verbatim>\<open>/i\<close> flag, which for a pattern of ASCII letters only lets
  the two ASCII cases of a letter match.\<close>

definition toLowerCase :: "char \<Rightarrow> char" where
  "toLowerCase c = (if isUpper c then char_of ((of_char c :: nat) + 32) else c)"

text \<open>The regular expression \<^verbatim>\<open>/^[a-zA-Z0-9_-]+$/\<close>, shared by user names and frontmatter
  keys.\<close>

definition isNameChar :: "char \<Rightarrow> bool" where
  "isNameChar c = (isLower c \<or> isUpper c \<or> isDigit c \<or> c = CHR ''_'' \<or> c = CHR ''-'')"

definition matchesNamePattern :: "string \<Rightarrow> bool" where
  "matchesNamePattern s = (s \<noteq> [] \<and> list_all isNameChar s)"

text \<open>\<^verbatim>\<open>Buffer.from(s, "utf-8")\<close> on code units below 256: one byte below 128, two above.\<close>

definition utf8 :: "string \<Rightarrow> nat list" where
  "utf8 s = concat (map (\<lambda>c. let n = (of_char c :: nat) in
                if n < 128 then [n] else [192 + n div 64, 128 + n mod 64]) s)"

text \<open>\<^verbatim>\<open>Buffer.byteLength(s, "utf-8")\<close>.\<close>

definition byteLength :: "string \<Rightarrow> nat" where
  "byteLength s = length (utf8 s)"

subsection \<open>Paths (\<^verbatim>\<open>path.normalize\<close> of Node.js on a POSIX host)\<close>

text \<open>
  \<^verbatim>\<open>path.normalize\<close> belongs to the Node.js runtime, not to the package. The model follows
  its POSIX algorithm: the path is cut at \<^verbatim>\<open>/\<close>; empty segments and \<^verbatim>\<open>.\<close> are dropped;
  \<^verbatim>\<open>..\<close> removes the segment before it, or is kept when there is none and the path is
  relative; a leading and a trailing slash are preserved; the empty result is \<^verbatim>\<open>.\<close>.
\<close>

definition normalizeSegment :: "bool \<Rightarrow> string \<Rightarrow> string list \<Rightarrow> string list" where
  "normalizeSegment allowAboveRoot seg res =
     (if seg = [] \<or> seg = ''.'' then res
      else if seg = ''..'' then
        (if res \<noteq> [] \<and> last res \<noteq> ''..'' then butlast res
         else if allowAboveRoot then res @ [''..'']
         else res)
      else res @ [seg])"

definition normalizeString :: "string \<Rightarrow> bool \<Rightarrow> string" where
  "normalizeString path allowAboveRoot =
     str_join (fold (normalizeSegment allowAboveRoot) (str_split path (CHR ''/'')) []) ''/''"

definition path_normalize :: "string \<Rightarrow> string" where
  "path_normalize path =
     (if path = [] then ''.''
      else
        let isAbsolute = (hd path = CHR ''/'');
            trailingSeparator = (last path = CHR ''/'');
            p = normalizeString path (\<not> isAbsolute)
        in if p = [] then (if isAbsolute then ''/'' else if trailingSeparator then ''./'' else ''.'')
           else
             let p' = (if trailingSeparator then p @ ''/'' else p)
             in if isAbsolute then CHR ''/'' # p' else p')"

subsection \<open>Validation (\<^verbatim>\<open>utils/validation.ts\<close>)\<close>

definition MAX_USERNAME_LENGTH :: nat where
  "MAX_USERNAME_LENGTH = 100"

definition MAX_PASSWORD_LENGTH :: nat where
  "MAX_PASSWORD_LENGTH = 1000"

definition MAX_FILE_SIZE :: nat where
  "MAX_FILE_SIZE = 10 * 1024 * 1024"

text \<open>\<^verbatim>\<open>.replace(/^(\.\.(\/|\\|$))+/, "")\<close>: the longest run of leading \<^verbatim>\<open>..\<close> segments, each
  followed by a slash, a backslash or the end of the string, is removed.\<close>

fun stripLeadingDotDots :: "string \<Rightarrow> string" where
  "stripLeadingDotDots (a # b # c # rest) =
     (if a = CHR ''.'' \<and> b = CHR ''.'' \<and> (c = CHR ''/'' \<or> c = CHR 0x5C)
      then stripLeadingDotDots rest else a # b # c # rest)"
| "stripLeadingDotDots s = (if s = ''..'' then [] else s)"

text \<open>\<^verbatim>\<open>/[<>:"|?*]/\<close>.\<close>

definition hasForbiddenChar :: "string \<Rightarrow> bool" where
  "hasForbiddenChar s =
     list_ex (\<lambda>c. c \<in> set [CHR ''<'', CHR ''>'', CHR '':'', CHR 0x22, CHR ''|'', CHR ''?'', CHR ''*'']) s"

text \<open>\<^verbatim>\<open>(\..*)?$\<close>: nothing, or a dot followed by characters other than line terminators.\<close>

definition reservedTail :: "string \<Rightarrow> bool" where
  "reservedTail t =
     (case t of [] \<Rightarrow> True
      | d # u \<Rightarrow> d = CHR ''.'' \<and> \<not> list_ex (\<lambda>c. c = CHR 0x0A \<or> c = CHR 0x0D) u)"

text \<open>\<^verbatim>\<open>/^(con|prn|aux|nul|com[0-9]|lpt[0-9])(\..*)?$/i\<close>.\<close>

definition isReservedName :: "string \<Rightarrow> bool" where
  "isReservedName s =
     (let l = map toLowerCase s; stem = take 3 l; rest = drop 3 l
      in (stem \<in> set [''con'', ''prn'', ''aux'', ''nul''] \<and> reservedTail rest) \<or>
         (stem \<in> set [''com'', ''lpt''] \<and>
            (case rest of [] \<Rightarrow> False | d # u \<Rightarrow> isDigit d \<and> reservedTail u)))"

definition dangerousPatterns :: "(string \<Rightarrow> bool) list" where
  "dangerousPatterns =
     [\<lambda>s. str_includes s ''..'',
      \<lambda>s. prefix ''/'' s \<or> prefix [CHR 0x5C] s,
      hasForbiddenChar,
      \<lambda>s. str_includes s [CHR 0x00],
      isReservedName]"

definition validateFilePath :: "string \<Rightarrow> error + string" where
  "validateFilePath filePath =
     (if filePath = [] then Inl InvalidFilePath
      else if str_includes filePath [CHR 0x00] then Inl NullByteDetected
      else if str_includes filePath ''..'' then Inl TraversalDetected
      else
        let normalized = stripLeadingDotDots (path_normalize filePath)
        in if prefix ''/'' normalized \<or> prefix [CHR 0x5C] normalized then Inl TraversalDetected
           else if list_ex (\<lambda>pattern. pattern normalized) dangerousPatterns
             then Inl DangerousCharacters
           else Inr normalized)"

definition validateUsername :: "string \<Rightarrow> error + bool" where
  "validateUsername username =
     (if username = [] then Inl UsernameRequired
      else if length username > MAX_USERNAME_LENGTH then Inl UsernameTooLong
      else if \<not> matchesNamePattern username then Inl UsernameInvalidChars
      else Inr True)"

definition validatePassword :: "string \<Rightarrow> error + bool" where
  "validatePassword password =
     (if password = [] then Inl PasswordRequired
      else if length password > MAX_PASSWORD_LENGTH then Inl PasswordTooLong
      else Inr True)"

subsection \<open>Process configuration\<close>

record env =
  CMS_ADMIN_USERNAME :: "string option"
  CMS_ADMIN_PASSWORD :: "string option"
  CMS_SESSION_SECRET :: "string option"

subsection \<open>Credential check (\<^verbatim>\<open>auth/login.ts\<close>)\<close>

text \<open>\<^verbatim>\<open>crypto.timingSafeEqual\<close> of Node.js: a \<^verbatim>\<open>RangeError\<close> on buffers of different
  lengths, otherwise their equality.\<close>

definition crypto_timingSafeEqual :: "nat list \<Rightarrow> nat list \<Rightarrow> error + bool" where
  "crypto_timingSafeEqual a b = (if length a \<noteq> length b then Inl RangeError else Inr (a = b))"

definition timingSafeEqual :: "string \<Rightarrow> string \<Rightarrow> bool" where
  "timingSafeEqual a b =
     (let bufferA = utf8 a; bufferB = utf8 b
      in if length bufferA \<noteq> length bufferB then
           (case crypto_timingSafeEqual bufferA (replicate (length bufferA) 0) of
              Inl e \<Rightarrow> False
            | Inr r \<Rightarrow> False)
         else
           (case crypto_timingSafeEqual bufferA bufferB of
              Inl e \<Rightarrow> False
            | Inr r \<Rightarrow> r))"

definition validateCredentials :: "env \<Rightarrow> string \<Rightarrow> string \<Rightarrow> error + bool" where
  "validateCredentials e username password =
     (case validateUsername username of
        Inl err \<Rightarrow> Inr False
      | Inr u \<Rightarrow>
         (case validatePassword password of
            Inl err \<Rightarrow> Inr False
          | Inr p \<Rightarrow>
             (case (CMS_ADMIN_USERNAME e, CMS_ADMIN_PASSWORD e) of
                (Some envUsername, Some envPassword) \<Rightarrow>
                  if envUsername = [] \<or> envPassword = [] then Inl CredentialsNotConfigured
                  else
                    let usernameMatch = timingSafeEqual username envUsername;
                        passwordMatch = timingSafeEqual password envPassword
                    in Inr (usernameMatch \<and> passwordMatch)
              | _ \<Rightarrow> Inl CredentialsNotConfigured)))"

subsection \<open>Frontmatter values\<close>

text \<open>A JavaScript value as the sanitizer distinguishes it by \<^verbatim>\<open>typeof\<close>, \<^verbatim>\<open>Array.isArray\<close>
  and \<^verbatim>\<open>=== null\<close>. An object is the list of its own enumerable entries in the order of
  \<^verbatim>\<open>Object.entries\<close>; \<open>JOther\<close> stands for \<^verbatim>\<open>undefined\<close>, functions, symbols and big
  integers.\<close>

datatype jsval =
    JString string
  | JNumber real
  | JBoolean bool
  | JNull
  | JArray "jsval list"
  | JObject "(string \<times> jsval) list"
  | JOther

text \<open>\<^verbatim>\<open>sanitized[key] = v\<close> on an object created by \<^verbatim>\<open>{}\<close>: an existing own key keeps
  its place, a new one is added last, and the key \<^verbatim>\<open>__proto__\<close> reaches the inherited setter
  and creates no own property.\<close>

definition assign :: "string \<Rightarrow> jsval \<Rightarrow> (string \<times> jsval) list \<Rightarrow> (string \<times> jsval) list" where
  "assign key v obj = (if key = ''__proto__'' then obj else AList.update key v obj)"

text \<open>The callback of \<^verbatim>\<open>value.map\<close> in the array branch.\<close>

definition sanitizeItem :: "jsval \<Rightarrow> jsval" where
  "sanitizeItem item = (case item of JString s \<Rightarrow> JString (stripNullBytes s) | _ \<Rightarrow> item)"

text \<open>\<^verbatim>\<open>sanitizeFrontmatter\<close> of \<^verbatim>\<open>utils/validation.ts\<close>: the loop over
  \<^verbatim>\<open>Object.entries(data)\<close> is a \<^const>\<open>fold\<close> that starts from the empty object.\<close>

fun sanitizeFrontmatter :: "(string \<times> jsval) list \<Rightarrow> (string \<times> jsval) list" where
  "sanitizeFrontmatter data =
     fold (\<lambda>(key, v) sanitized.
             if \<not> matchesNamePattern key then sanitized
             else (case v of
                     JString s \<Rightarrow> assign key (JString (stripNullBytes s)) sanitized
                   | JNumber n \<Rightarrow> assign key v sanitized
                   | JBoolean b \<Rightarrow> assign key v sanitized
                   | JNull \<Rightarrow> assign key v sanitized
                   | JArray items \<Rightarrow> assign key (JArray (map sanitizeItem items)) sanitized
                   | JObject d \<Rightarrow> assign key (JObject (sanitizeFrontmatter d)) sanitized
                   | JOther \<Rightarrow> sanitized))
          data []"

declare sanitizeFrontmatter.simps [simp del]



subsection \<open>Sessions (\<^verbatim>\<open>auth/session.ts\<close>)\<close>

type_synonym jsobject = "(string \<times> jsval) list"

definition SESSION_DURATION :: int where
  "SESSION_DURATION = 60 * 60 * 24 * 7"

text \<open>\<^verbatim>\<open>try { body } catch (error) { handler }\<close>.\<close>

definition try_catch :: "error + 'a \<Rightarrow> (error \<Rightarrow> error + 'a) \<Rightarrow> error + 'a" where
  "try_catch body handler = (case body of Inl err \<Rightarrow> handler err | Inr v \<Rightarrow> Inr v)"

definition getSecretKey :: "env \<Rightarrow> error + nat list" where
  "getSecretKey e =
     (case CMS_SESSION_SECRET e of
        None \<Rightarrow> Inl SessionSecretTooShort
      | Some secret \<Rightarrow>
          if secret = [] \<or> length secret < 32 then Inl SessionSecretTooShort
          else Inr (utf8 secret))"

text \<open>\<^verbatim>\<open>typeof v === "string"\<close> and \<^verbatim>\<open>typeof v === "number"\<close> for a property that may be
  missing.\<close>

definition isStringProp :: "jsval option \<Rightarrow> bool" where
  "isStringProp v = (case v of Some (JString s) \<Rightarrow> True | _ \<Rightarrow> False)"

definition isNumberProp :: "jsval option \<Rightarrow> bool" where
  "isNumberProp v = (case v of Some (JNumber n) \<Rightarrow> True | _ \<Rightarrow> False)"

text \<open>
  \<^verbatim>\<open>jwtVerify\<close> and \<^verbatim>\<open>SignJWT\<close> belong to the \<^verbatim>\<open>jose\<close> library. They are arguments of the
  model: \<open>jwtVerify token key\<close> is the payload of the token or the error \<^verbatim>\<open>jose\<close> throws
  (bad signature, expired token, malformed token), \<open>signJWT payload key\<close> the signed
  token.
\<close>

definition verifySession ::
  "(string \<Rightarrow> nat list \<Rightarrow> error + jsobject) \<Rightarrow> env \<Rightarrow> string \<Rightarrow> error + jsobject option" where
  "verifySession jwtVerify e token =
     try_catch
       (case getSecretKey e of
          Inl err \<Rightarrow> Inl err
        | Inr key \<Rightarrow>
           (case jwtVerify token key of
              Inl err \<Rightarrow> Inl err
            | Inr payload \<Rightarrow>
                if isStringProp (map_of payload ''username'') \<and>
                   isNumberProp (map_of payload ''exp'')
                then Inr (Some payload)
                else Inr None))
       (\<lambda>err. Inr None)"

definition createSession ::
  "(jsobject \<Rightarrow> nat list \<Rightarrow> error + string) \<Rightarrow> env \<Rightarrow> int \<Rightarrow> string \<Rightarrow> error + string" where
  "createSession signJWT e now username =
     (let payload = [(''username'', JString username),
                     (''exp'', JNumber (of_int (now div 1000 + SESSION_DURATION)))]
      in case getSecretKey e of
           Inl err \<Rightarrow> Inl err
         | Inr key \<Rightarrow> signJWT payload key)"

subsection \<open>Storage providers (\<^verbatim>\<open>content/storage.ts\<close>)\<close>

datatype entryType = File | Directory

datatype FileEntry = FileEntry (entry_path: string) (entry_name: string) (entry_type: entryType)

text \<open>
  The interface \<^verbatim>\<open>StorageProvider\<close>. Each method takes the state of the backend and
  returns it with its result; a rejected promise is \<^const>\<open>Inl\<close>.
\<close>

record 'w StorageProvider =
  readFile :: "string \<Rightarrow> 'w \<Rightarrow> (error + string) \<times> 'w"
  writeFile :: "string \<Rightarrow> string \<Rightarrow> 'w \<Rightarrow> (error + unit) \<times> 'w"
  deleteFile :: "string \<Rightarrow> 'w \<Rightarrow> (error + unit) \<times> 'w"
  listFiles :: "string \<Rightarrow> 'w \<Rightarrow> (error + FileEntry list) \<times> 'w"
  exists :: "string \<Rightarrow> 'w \<Rightarrow> (error + bool) \<times> 'w"
  uploadFile :: "string \<Rightarrow> nat list \<Rightarrow> 'w \<Rightarrow> (error + string) \<times> 'w"

text \<open>
  The three backends, each reduced to what \<^verbatim>\<open>deleteFile\<close> touches. They are services
  outside the package; the models state their documented behaviour on a reachable
  backend.
  \<^item> Local disk: a map from absolute paths to nodes. \<^verbatim>\<open>fs.unlink\<close> rejects with
    \<^verbatim>\<open>ENOENT\<close> when nothing is at the path and does not remove a directory.
  \<^item> GitHub: a map from repository paths (on the configured branch) to what
    \<^verbatim>\<open>repos.getContent\<close> answers there, a file with its blob \<^verbatim>\<open>sha\<close> or the listing of a
    directory. \<^verbatim>\<open>getContent\<close> rejects with status 404 when nothing is at the path;
    \<^verbatim>\<open>repos.deleteFile\<close> needs the current \<^verbatim>\<open>sha\<close> and rejects with status 409 on another.
  \<^item> Cloudflare R2: a map from object keys to bodies. \<^verbatim>\<open>DeleteObject\<close> of the S3 protocol
    succeeds whether or not the key holds an object.
\<close>

datatype fs_node = RegularFile string | DirectoryNode

type_synonym filesystem = "string \<rightharpoonup> fs_node"

definition fs_unlink :: "string \<Rightarrow> filesystem \<Rightarrow> (error + unit) \<times> filesystem" where
  "fs_unlink fullPath fs =
     (case fs fullPath of
        None \<Rightarrow> (Inl ENOENT, fs)
      | Some DirectoryNode \<Rightarrow> (Inl EISDIR, fs)
      | Some (RegularFile c) \<Rightarrow> (Inr (), fs(fullPath := None)))"

datatype gh_content = GhFile string string | GhDirectory "string list"

type_synonym repository = "string \<rightharpoonup> gh_content"

definition octokit_getContent :: "string \<Rightarrow> repository \<Rightarrow> error + gh_content" where
  "octokit_getContent githubPath repo =
     (case repo githubPath of None \<Rightarrow> Inl (HttpError 404) | Some d \<Rightarrow> Inr d)"

definition octokit_deleteFile ::
  "string \<Rightarrow> string \<Rightarrow> repository \<Rightarrow> (error + unit) \<times> repository" where
  "octokit_deleteFile githubPath sha repo =
     (case repo githubPath of
        Some (GhFile c s) \<Rightarrow>
          if s = sha then (Inr (), repo(githubPath := None)) else (Inl (HttpError 409), repo)
      | _ \<Rightarrow> (Inl (HttpError 404), repo))"

type_synonym bucket = "string \<rightharpoonup> string"

definition s3_DeleteObject :: "string \<Rightarrow> bucket \<Rightarrow> (error + unit) \<times> bucket" where
  "s3_DeleteObject key b = (Inr (), b(key := None))"

text \<open>\<^verbatim>\<open>path.join\<close> of Node.js: the non-empty arguments joined by \<^verbatim>\<open>/\<close>, then normalized.\<close>

definition path_join :: "string list \<Rightarrow> string" where
  "path_join args =
     (let joined = str_join (filter (\<lambda>arg. arg \<noteq> []) args) ''/''
      in if joined = [] then ''.'' else path_normalize joined)"

text \<open>\<^verbatim>\<open>LocalStorage\<close>; \<open>cwd\<close> is \<^verbatim>\<open>process.cwd()\<close>.\<close>

definition getFullPath :: "string \<Rightarrow> string \<Rightarrow> string \<Rightarrow> string" where
  "getFullPath cwd baseDir filePath = path_join [cwd, baseDir, filePath]"

definition LocalStorage_deleteFile ::
  "string \<Rightarrow> string \<Rightarrow> string \<Rightarrow> filesystem \<Rightarrow> (error + unit) \<times> filesystem" where
  "LocalStorage_deleteFile cwd baseDir filePath fs =
     (let fullPath = getFullPath cwd baseDir filePath in fs_unlink fullPath fs)"

text \<open>\<^verbatim>\<open>GitHubStorage\<close>.\<close>

definition getGitHubPath :: "string \<Rightarrow> string \<Rightarrow> string" where
  "getGitHubPath baseDir filePath = baseDir @ ''/'' @ filePath"

definition GitHubStorage_deleteFile ::
  "string \<Rightarrow> string \<Rightarrow> repository \<Rightarrow> (error + unit) \<times> repository" where
  "GitHubStorage_deleteFile baseDir filePath repo =
     (let githubPath = getGitHubPath baseDir filePath
      in case octokit_getContent githubPath repo of
           Inl err \<Rightarrow> (Inl err, repo)
         | Inr d \<Rightarrow>
            (case d of
               GhFile c sha \<Rightarrow> octokit_deleteFile githubPath sha repo
             | GhDirectory l \<Rightarrow> (Inr (), repo)))"

text \<open>\<^verbatim>\<open>CloudflareR2Storage\<close>.\<close>

definition getR2Path :: "string \<Rightarrow> string \<Rightarrow> string" where
  "getR2Path baseDir filePath = baseDir @ ''/'' @ filePath"

definition CloudflareR2Storage_deleteFile ::
  "string \<Rightarrow> string \<Rightarrow> bucket \<Rightarrow> (error + unit) \<times> bucket" where
  "CloudflareR2Storage_deleteFile baseDir filePath b =
     s3_DeleteObject (getR2Path baseDir filePath) b"

subsection \<open>Content operations (\<^verbatim>\<open>content/markdown.ts\<close>, \<^verbatim>\<open>directory.ts\<close>,
  \<^verbatim>\<open>collection.ts\<close>, \<^verbatim>\<open>upload.ts\<close>)\<close>

text \<open>
  Every operation begins with \<^verbatim>\<open>getStorageProvider()\<close>, which reads the environment and
  constructs one of the three provider classes, or throws when the settings of the chosen
  class are incomplete. Its outcome is the argument \<open>getStorageProvider\<close> of the
  operations. The functions \<^verbatim>\<open>matter\<close> and \<^verbatim>\<open>matter.stringify\<close> of the \<^verbatim>\<open>gray-matter\<close>
  library are arguments as well; either may throw.
\<close>

record grayMatter =
  matter :: "string \<Rightarrow> error + jsobject \<times> string"
  matter_stringify :: "string \<Rightarrow> jsobject \<Rightarrow> error + string"

definition parseMarkdown :: "grayMatter \<Rightarrow> string \<Rightarrow> error + jsobject \<times> string" where
  "parseMarkdown gm rawContent = matter gm rawContent"

definition stringifyMarkdown :: "grayMatter \<Rightarrow> jsobject \<Rightarrow> string \<Rightarrow> error + string" where
  "stringifyMarkdown gm data content = matter_stringify gm content data"

definition getMarkdownContent ::
  "error + 'w StorageProvider \<Rightarrow> grayMatter \<Rightarrow> string \<Rightarrow> 'w \<Rightarrow>
   (error + jsobject \<times> string) \<times> 'w" where
  "getMarkdownContent getStorageProvider gm filePath w =
     (case validateFilePath filePath of
        Inl err \<Rightarrow> (Inl err, w)
      | Inr validatedPath \<Rightarrow>
         (case getStorageProvider of
            Inl err \<Rightarrow> (Inl err, w)
          | Inr storage \<Rightarrow>
             (case readFile storage validatedPath w of
                (Inl err, w') \<Rightarrow> (Inl err, w')
              | (Inr rawContent, w') \<Rightarrow>
                  let size = byteLength rawContent
                  in if size > MAX_FILE_SIZE then (Inl (FileSizeExceeded size), w')
                     else (parseMarkdown gm rawContent, w'))))"

definition saveMarkdownContent ::
  "error + 'w StorageProvider \<Rightarrow> grayMatter \<Rightarrow> string \<Rightarrow> jsobject \<Rightarrow> string \<Rightarrow> 'w \<Rightarrow>
   (error + unit) \<times> 'w" where
  "saveMarkdownContent getStorageProvider gm filePath data content w =
     (case validateFilePath filePath of
        Inl err \<Rightarrow> (Inl err, w)
      | Inr validatedPath \<Rightarrow>
          let sanitizedData = sanitizeFrontmatter data
          in case stringifyMarkdown gm sanitizedData content of
               Inl err \<Rightarrow> (Inl err, w)
             | Inr markdown \<Rightarrow>
                 let size = byteLength markdown
                 in if size > MAX_FILE_SIZE then (Inl (ContentSizeExceeded size), w)
                    else
                      (case getStorageProvider of
                         Inl err \<Rightarrow> (Inl err, w)
                       | Inr storage \<Rightarrow> writeFile storage validatedPath markdown w))"

definition deleteMarkdownContent ::
  "error + 'w StorageProvider \<Rightarrow> string \<Rightarrow> 'w \<Rightarrow> (error + unit) \<times> 'w" where
  "deleteMarkdownContent getStorageProvider filePath w =
     (case validateFilePath filePath of
        Inl err \<Rightarrow> (Inl err, w)
      | Inr validatedPath \<Rightarrow>
         (case getStorageProvider of
            Inl err \<Rightarrow> (Inl err, w)
          | Inr storage \<Rightarrow> deleteFile storage validatedPath w))"

definition listMarkdownFiles ::
  "error + 'w StorageProvider \<Rightarrow> string \<Rightarrow> 'w \<Rightarrow> (error + string list) \<times> 'w" where
  "listMarkdownFiles getStorageProvider directory w =
     (case (if directory \<noteq> [] then validateFilePath directory else Inr []) of
        Inl err \<Rightarrow> (Inl err, w)
      | Inr validatedDir \<Rightarrow>
         (case getStorageProvider of
            Inl err \<Rightarrow> (Inl err, w)
          | Inr storage \<Rightarrow>
             (case listFiles storage validatedDir w of
                (Inl err, w') \<Rightarrow> (Inl err, w')
              | (Inr entries, w') \<Rightarrow>
                  (Inr (map entry_path (filter (\<lambda>entry. entry_type entry = File) entries)),
                   w'))))"

definition markdownFileExists ::
  "error + 'w StorageProvider \<Rightarrow> string \<Rightarrow> 'w \<Rightarrow> (error + bool) \<times> 'w" where
  "markdownFileExists getStorageProvider filePath w =
     (case validateFilePath filePath of
        Inl err \<Rightarrow> (Inl err, w)
      | Inr validatedPath \<Rightarrow>
         (case getStorageProvider of
            Inl err \<Rightarrow> (Inl err, w)
          | Inr storage \<Rightarrow> exists storage validatedPath w))"

definition listDirectory ::
  "error + 'w StorageProvider \<Rightarrow> string \<Rightarrow> 'w \<Rightarrow> (error + FileEntry list) \<times> 'w" where
  "listDirectory getStorageProvider directory w =
     (case getStorageProvider of
        Inl err \<Rightarrow> (Inl err, w)
      | Inr storage \<Rightarrow> listFiles storage directory w)"

datatype CollectionItem =
  CollectionItem (item_content: string) (item_data: jsobject) (item_slug: string)

definition getCollectionItem ::
  "error + 'w StorageProvider \<Rightarrow> grayMatter \<Rightarrow> string \<Rightarrow> string \<Rightarrow> 'w \<Rightarrow>
   (error + CollectionItem option) \<times> 'w" where
  "getCollectionItem getStorageProvider gm folderName slug w =
     (case getStorageProvider of
        Inl err \<Rightarrow> (Inl err, w)
      | Inr storage \<Rightarrow>
          let filePath = folderName @ ''/'' @ slug @ ''.md''
          in case exists storage filePath w of
               (Inl err, w1) \<Rightarrow> (Inr None, w1)
             | (Inr ex, w1) \<Rightarrow>
                 if \<not> ex then (Inr None, w1)
                 else
                   (case readFile storage filePath w1 of
                      (Inl err, w2) \<Rightarrow> (Inr None, w2)
                    | (Inr rawContent, w2) \<Rightarrow>
                       (case parseMarkdown gm rawContent of
                          Inl err \<Rightarrow> (Inr None, w2)
                        | Inr (data, content) \<Rightarrow>
                            (Inr (Some (CollectionItem content data slug)), w2))))"

text \<open>The decimal digits of a template literal \<^verbatim>\<open>${n}\<close> for a natural number.\<close>

fun showNat :: "nat \<Rightarrow> string" where
  "showNat n =
     (if n < 10 then [''0123456789'' ! n]
      else showNat (n div 10) @ [''0123456789'' ! (n mod 10)])"

declare showNat.simps [simp del]

text \<open>\<^verbatim>\<open>uploadFile\<close> of \<^verbatim>\<open>content/upload.ts\<close>; the provider's method owns the plain name.
  \<^verbatim>\<open>fileName.split(".").pop()\<close> is the last piece, and a split has at least one.\<close>

definition upload_uploadFile ::
  "error + 'w StorageProvider \<Rightarrow> nat \<Rightarrow> string \<Rightarrow> nat list \<Rightarrow> 'w \<Rightarrow> (error + string) \<times> 'w" where
  "upload_uploadFile getStorageProvider now fileName buffer w =
     (case getStorageProvider of
        Inl err \<Rightarrow> (Inl err, w)
      | Inr storage \<Rightarrow>
          let timestamp = now;
              ext = last (str_split fileName (CHR ''.''));
              nameWithoutExt = str_replace fileName (''.'' @ ext) [];
              uniqueFileName = nameWithoutExt @ ''-'' @ showNat timestamp @ ''.'' @ ext
          in uploadFile storage uniqueFileName buffer w)"

text \<open>A provider that records the calls it receives: its state is the list of calls
  so far, its answers are fixed.\<close>

datatype providerCall =
    ReadFile string
  | WriteFile string string
  | DeleteFile string
  | ListFiles string
  | Exists string
  | UploadFile string "nat list"

definition recordingProvider :: "providerCall list StorageProvider" where
  "recordingProvider =
     \<lparr>readFile = (\<lambda>p calls. (Inr [], calls @ [ReadFile p])),
      writeFile = (\<lambda>p c calls. (Inr (), calls @ [WriteFile p c])),
      deleteFile = (\<lambda>p calls. (Inr (), calls @ [DeleteFile p])),
      listFiles = (\<lambda>d calls. (Inr [], calls @ [ListFiles d])),
      exists = (\<lambda>p calls. (Inr True, calls @ [Exists p])),
      uploadFile = (\<lambda>p b calls. (Inr (''/uploads/'' @ p), calls @ [UploadFile p b]))\<rparr>"

subsection \<open>Login endpoint (\<^verbatim>\<open>api/handlers.ts\<close>)\<close>

text \<open>
  A value returned by \<^verbatim>\<open>JSON.parse\<close>; an object is the list of its own entries. The
  handler casts the parsed body to \<^verbatim>\<open>{ username?: string; password?: string }\<close>, which
  checks nothing when the program runs: the body may be \<^verbatim>\<open>null\<close>, and a field may hold
  any value.
\<close>

datatype jsonValue =
    JsonNull
  | JsonBoolean bool
  | JsonNumber real
  | JsonString string
  | JsonArray "jsonValue list"
  | JsonObject "(string \<times> jsonValue) list"

text \<open>\<^verbatim>\<open>body[key]\<close> for a key that no prototype defines, as \<^verbatim>\<open>username\<close> and \<^verbatim>\<open>password\<close>:
  the own entry of an object, \<^verbatim>\<open>undefined\<close> on an array or a primitive value.\<close>

definition getProperty :: "jsonValue \<Rightarrow> string \<Rightarrow> jsonValue option" where
  "getProperty body key = (case body of JsonObject entries \<Rightarrow> map_of entries key | _ \<Rightarrow> None)"

text \<open>\<^verbatim>\<open>const { username, password } = body\<close>: a \<^verbatim>\<open>TypeError\<close> on \<^verbatim>\<open>null\<close>.\<close>

definition destructureBody :: "jsonValue \<Rightarrow> error + jsonValue option \<times> jsonValue option" where
  "destructureBody body =
     (if body = JsonNull then Inl TypeError
      else Inr (getProperty body ''username'', getProperty body ''password''))"

text \<open>\<^verbatim>\<open>!v\<close> for a value that may be \<^verbatim>\<open>undefined\<close>.\<close>

definition falsy :: "jsonValue option \<Rightarrow> bool" where
  "falsy v =
     (case v of
        None \<Rightarrow> True
      | Some JsonNull \<Rightarrow> True
      | Some (JsonBoolean b) \<Rightarrow> \<not> b
      | Some (JsonNumber n) \<Rightarrow> n = 0
      | Some (JsonString s) \<Rightarrow> s = []
      | Some (JsonArray l) \<Rightarrow> False
      | Some (JsonObject l) \<Rightarrow> False)"

text \<open>
  \<^verbatim>\<open>validateCredentials(username, password)\<close> as the handler calls it, on values that need
  not be strings. On two strings it is \<^const>\<open>validateCredentials\<close>. On anything else the
  test \<^verbatim>\<open>typeof ... !== "string"\<close> of \<^verbatim>\<open>validateUsername\<close> or \<^verbatim>\<open>validatePassword\<close> throws
  inside the \<^verbatim>\<open>try\<close> of \<^verbatim>\<open>validateCredentials\<close>, whose \<^verbatim>\<open>catch\<close> returns \<open>false\<close>.
\<close>

definition validateCredentialsAt ::
  "env \<Rightarrow> jsonValue option \<Rightarrow> jsonValue option \<Rightarrow> error + bool" where
  "validateCredentialsAt e username password =
     (case (username, password) of
        (Some (JsonString u), Some (JsonString p)) \<Rightarrow> validateCredentials e u p
      | _ \<Rightarrow> Inr False)"

text \<open>The string a value is; \<^verbatim>\<open>createSession(username)\<close> is reached only after
  \<^verbatim>\<open>validateCredentials\<close> has returned \<open>true\<close>, hence with a string.\<close>

definition stringValue :: "jsonValue option \<Rightarrow> string" where
  "stringValue v = (case v of Some (JsonString s) \<Rightarrow> s | _ \<Rightarrow> [])"

text \<open>A request: its headers and the outcome of \<^verbatim>\<open>request.json()\<close>, which rejects on a
  body that is not JSON.\<close>

record LoginRequest =
  headers :: "string \<rightharpoonup> string"
  json :: "error + jsonValue"

record Response =
  status :: nat
  errorMessage :: "string option"
  retryAfter :: "int option"
  sessionCookie :: "string option"

definition jsonResponse :: "nat \<Rightarrow> string option \<Rightarrow> Response" where
  "jsonResponse st msg =
     \<lparr>status = st, errorMessage = msg, retryAfter = None, sessionCookie = None\<rparr>"

text \<open>\<^verbatim>\<open>a || b\<close> for an optional string \<open>a\<close>: \<open>b\<close> when \<open>a\<close> is missing or empty.\<close>

definition orElse :: "string option \<Rightarrow> string \<Rightarrow> string" where
  "orElse a b = (case a of None \<Rightarrow> b | Some s \<Rightarrow> if s = [] then b else s)"

text \<open>\<^verbatim>\<open>request.headers.get("x-forwarded-for")?.split(",")[0] ||
  request.headers.get("x-real-ip") || "unknown"\<close>.\<close>

definition clientIp :: "LoginRequest \<Rightarrow> string" where
  "clientIp request =
     (let forwarded =
            (case headers request ''x-forwarded-for'' of
               None \<Rightarrow> None
             | Some h \<Rightarrow> (case str_split h (CHR '','') of [] \<Rightarrow> None | x # xs \<Rightarrow> Some x))
      in orElse forwarded (orElse (headers request ''x-real-ip'') ''unknown''))"

text \<open>\<^verbatim>\<open>Math.ceil(ms / 1000)\<close> on an integer number of milliseconds.\<close>

definition ceilSeconds :: "int \<Rightarrow> int" where
  "ceilSeconds ms = - ((- ms) div 1000)"

text \<open>
  \<^verbatim>\<open>handleLogin\<close>. The clock is read by \<^verbatim>\<open>checkRateLimit\<close> (\<open>tCheck\<close>), for the
  \<^verbatim>\<open>Retry-After\<close> header (\<open>tRetry\<close>), by \<^verbatim>\<open>incrementRateLimit\<close> (\<open>tIncrement\<close>) and by
  \<^verbatim>\<open>createSession\<close> (\<open>tSession\<close>). Every exception inside the handler ends in the 500
  response of its \<^verbatim>\<open>catch\<close> block, with the store as it is at that moment.
\<close>

definition handleLogin ::
  "(jsobject \<Rightarrow> nat list \<Rightarrow> error + string) \<Rightarrow> env \<Rightarrow> int \<Rightarrow> int \<Rightarrow> int \<Rightarrow> int \<Rightarrow>
   LoginRequest \<Rightarrow> rateLimitStore \<Rightarrow> Response \<times> rateLimitStore" where
  "handleLogin signJWT e tCheck tRetry tIncrement tSession request store =
     (let ip = clientIp request;
          (rateLimit, store1) = checkRateLimit tCheck store ip;
          unavailable = jsonResponse 500 (Some ''Authentication service temporarily unavailable'')
      in if isLimited rateLimit then
           (\<lparr>status = 429,
             errorMessage = Some ''Too many login attempts. Please try again later.'',
             retryAfter = Some (ceilSeconds (resetTimeOut rateLimit - tRetry)),
             sessionCookie = None\<rparr>, store1)
         else
           (case json request of
              Inl err \<Rightarrow> (unavailable, store1)
            | Inr body \<Rightarrow>
               (case destructureBody body of
                  Inl err \<Rightarrow> (unavailable, store1)
                | Inr (username, password) \<Rightarrow>
                    if falsy username \<or> falsy password then
                      (jsonResponse 400 (Some ''Username and password are required''), store1)
                    else
                      (case validateCredentialsAt e username password of
                         Inl err \<Rightarrow> (unavailable, store1)
                       | Inr isValid \<Rightarrow>
                           if \<not> isValid then
                             (jsonResponse 401 (Some ''Invalid credentials''),
                              incrementRateLimit tIncrement store1 ip)
                           else
                             let store2 = resetRateLimit store1 ip
                             in (case createSession signJWT e tSession (stringValue username) of
                                   Inl err \<Rightarrow> (unavailable, store2)
                                 | Inr token \<Rightarrow>
                                     (\<lparr>status = 200, errorMessage = None, retryAfter = None,
                                       sessionCookie = Some token\<rparr>, store2))))))"

subsection \<open>Concrete instances\<close>

text \<open>Arguments for the concrete instances of the theorems below: a serializer that
  ignores the frontmatter and ends the content with a newline, two verifiers (one that
  rejects every token, one that returns a payload without the session fields), a signer,
  a configured environment, a content of 10 MiB and three login requests.\<close>

definition plainMatter :: grayMatter where
  "plainMatter =
     \<lparr>matter = (\<lambda>rawContent. Inr ([], rawContent)),
      matter_stringify = (\<lambda>content data. Inr (content @ [CHR 0x0A]))\<rparr>"

definition rejectingVerify :: "string \<Rightarrow> nat list \<Rightarrow> error + jsobject" where
  "rejectingVerify token key = Inl (LibraryError ''JWSSignatureVerificationFailed'')"

definition decodingVerify :: "string \<Rightarrow> nat list \<Rightarrow> error + jsobject" where
  "decodingVerify token key = Inr [(''sub'', JString token)]"

definition devEnv :: env where
  "devEnv = \<lparr>CMS_ADMIN_USERNAME = Some ''admin'', CMS_ADMIN_PASSWORD = Some ''password123'',
             CMS_SESSION_SECRET = Some ''0123456789abcdef0123456789abcdef''\<rparr>"

definition stubSign :: "jsobject \<Rightarrow> nat list \<Rightarrow> error + string" where
  "stubSign payload key = Inr ''header.payload.signature''"

definition loginWithoutPassword :: LoginRequest where
  "loginWithoutPassword =
     \<lparr>headers = [''x-forwarded-for'' \<mapsto> ''203.0.113.9, 10.0.0.1''],
      json = Inr (JsonObject [(''username'', JsonString ''admin'')])\<rparr>"

definition loginWrongPassword :: LoginRequest where
  "loginWrongPassword =
     \<lparr>headers = [''x-forwarded-for'' \<mapsto> ''203.0.113.9, 10.0.0.1''],
      json = Inr (JsonObject [(''username'', JsonString ''admin''),
                              (''password'', JsonString ''guess'')])\<rparr>"

definition loginNullBody :: LoginRequest where
  "loginNullBody =
     \<lparr>headers = [''x-forwarded-for'' \<mapsto> ''203.0.113.9, 10.0.0.1''], json = Inr JsonNull\<rparr>"

definition oversizedContent :: string where
  "oversizedContent = replicate (10 * 1024 * 1024) (CHR ''a'')"

section \<open>Properties\<close>

subsection \<open>Rate limiter\<close>

lemma incrementRateLimit_fresh:
  "store ident = None \<Longrightarrow>
   incrementRateLimit t store ident ident = Some \<lparr>count = 1, resetTime = t + WINDOW_MS\<rparr>"
  by (simp add: incrementRateLimit_def)

lemma incrementRateLimit_live:
  "store ident = Some \<lparr>count = c, resetTime = r\<rparr> \<Longrightarrow> t \<le> r \<Longrightarrow>
   incrementRateLimit t store ident ident = Some \<lparr>count = c + 1, resetTime = r\<rparr>"
  by (simp add: incrementRateLimit_def)

lemma checkRateLimit_live:
  "store ident = Some entry \<Longrightarrow> now \<le> resetTime entry \<Longrightarrow>
   fst (checkRateLimit now store ident) =
     \<lparr>isLimited = (count entry \<ge> 5), remaining = max 0 (5 - count entry),
      resetTimeOut = resetTime entry\<rparr>"
  by (simp add: checkRateLimit_def MAX_ATTEMPTS_def Let_def max_def)

text \<open>
  Claim C5. Starting from a store without an entry for the identifier, the calls of
  \<^verbatim>\<open>incrementRateLimit\<close> inside the window opened by the first one count one by one:
  after the first four, \<^verbatim>\<open>checkRateLimit\<close> reports \<open>isLimited = false\<close> with \<open>remaining\<close>
  4, 3, 2 and 1; after exactly five it reports \<open>isLimited = true\<close> and \<open>remaining = 0\<close>;
  a sixth call leaves \<open>remaining\<close> at \<open>0\<close>. For any existing entry that has not
  expired, \<^verbatim>\<open>checkRateLimit\<close> reports limited iff \<open>count \<ge> 5\<close>, with
  \<open>remaining = max(0, 5 - count)\<close> and the entry's own \<open>resetTime\<close>.
\<close>

theorem rate_limit_five_attempts:
  "(store ident = None \<and> t2 \<le> t1 + WINDOW_MS \<and> t3 \<le> t1 + WINDOW_MS \<and>
    t4 \<le> t1 + WINDOW_MS \<and> t5 \<le> t1 + WINDOW_MS \<and> t6 \<le> t1 + WINDOW_MS \<and>
    now \<le> t1 + WINDOW_MS \<longrightarrow>
      (let s1 = incrementRateLimit t1 store ident;
           s2 = incrementRateLimit t2 s1 ident;
           s3 = incrementRateLimit t3 s2 ident;
           s4 = incrementRateLimit t4 s3 ident;
           s5 = incrementRateLimit t5 s4 ident;
           s6 = incrementRateLimit t6 s5 ident
       in fst (checkRateLimit now s1 ident) =
            \<lparr>isLimited = False, remaining = 4, resetTimeOut = t1 + WINDOW_MS\<rparr> \<and>
          fst (checkRateLimit now s2 ident) =
            \<lparr>isLimited = False, remaining = 3, resetTimeOut = t1 + WINDOW_MS\<rparr> \<and>
          fst (checkRateLimit now s3 ident) =
            \<lparr>isLimited = False, remaining = 2, resetTimeOut = t1 + WINDOW_MS\<rparr> \<and>
          fst (checkRateLimit now s4 ident) =
            \<lparr>isLimited = False, remaining = 1, resetTimeOut = t1 + WINDOW_MS\<rparr> \<and>
          fst (checkRateLimit now s5 ident) =
            \<lparr>isLimited = True, remaining = 0, resetTimeOut = t1 + WINDOW_MS\<rparr> \<and>
          fst (checkRateLimit now s6 ident) =
            \<lparr>isLimited = True, remaining = 0, resetTimeOut = t1 + WINDOW_MS\<rparr>)) \<and>
   (st idn = Some entry \<and> \<not> tm > resetTime entry \<longrightarrow>
      fst (checkRateLimit tm st idn) =
        \<lparr>isLimited = (count entry \<ge> 5), remaining = max 0 (5 - count entry),
         resetTimeOut = resetTime entry\<rparr>)"
proof -
  have fresh: "let s1 = incrementRateLimit t1 store ident;
           s2 = incrementRateLimit t2 s1 ident;
           s3 = incrementRateLimit t3 s2 ident;
           s4 = incrementRateLimit t4 s3 ident;
           s5 = incrementRateLimit t5 s4 ident;
           s6 = incrementRateLimit t6 s5 ident
       in fst (checkRateLimit now s1 ident) =
            \<lparr>isLimited = False, remaining = 4, resetTimeOut = t1 + WINDOW_MS\<rparr> \<and>
          fst (checkRateLimit now s2 ident) =
            \<lparr>isLimited = False, remaining = 3, resetTimeOut = t1 + WINDOW_MS\<rparr> \<and>
          fst (checkRateLimit now s3 ident) =
            \<lparr>isLimited = False, remaining = 2, resetTimeOut = t1 + WINDOW_MS\<rparr> \<and>
          fst (checkRateLimit now s4 ident) =
            \<lparr>isLimited = False, remaining = 1, resetTimeOut = t1 + WINDOW_MS\<rparr> \<and>
          fst (checkRateLimit now s5 ident) =
            \<lparr>isLimited = True, remaining = 0, resetTimeOut = t1 + WINDOW_MS\<rparr> \<and>
          fst (checkRateLimit now s6 ident) =
            \<lparr>isLimited = True, remaining = 0, resetTimeOut = t1 + WINDOW_MS\<rparr>"
    if a: "store ident = None \<and> t2 \<le> t1 + WINDOW_MS \<and> t3 \<le> t1 + WINDOW_MS \<and>
      t4 \<le> t1 + WINDOW_MS \<and> t5 \<le> t1 + WINDOW_MS \<and> t6 \<le> t1 + WINDOW_MS \<and>
      now \<le> t1 + WINDOW_MS"
  proof -
    define r where "r = t1 + WINDOW_MS"
    define s1 where "s1 = incrementRateLimit t1 store ident"
    define s2 where "s2 = incrementRateLimit t2 s1 ident"
    define s3 where "s3 = incrementRateLimit t3 s2 ident"
    define s4 where "s4 = incrementRateLimit t4 s3 ident"
    define s5 where "s5 = incrementRateLimit t5 s4 ident"
    define s6 where "s6 = incrementRateLimit t6 s5 ident"
    have e1: "s1 ident = Some \<lparr>count = 1, resetTime = r\<rparr>"
      using a by (simp add: s1_def r_def incrementRateLimit_fresh)
    have e2: "s2 ident = Some \<lparr>count = 2, resetTime = r\<rparr>"
      using incrementRateLimit_live [of s1 ident 1 r t2] e1 a by (simp add: s2_def r_def)
    have e3: "s3 ident = Some \<lparr>count = 3, resetTime = r\<rparr>"
      using incrementRateLimit_live [of s2 ident 2 r t3] e2 a by (simp add: s3_def r_def)
    have e4: "s4 ident = Some \<lparr>count = 4, resetTime = r\<rparr>"
      using incrementRateLimit_live [of s3 ident 3 r t4] e3 a by (simp add: s4_def r_def)
    have e5: "s5 ident = Some \<lparr>count = 5, resetTime = r\<rparr>"
      using incrementRateLimit_live [of s4 ident 4 r t5] e4 a by (simp add: s5_def r_def)
    have e6: "s6 ident = Some \<lparr>count = 6, resetTime = r\<rparr>"
      using incrementRateLimit_live [of s5 ident 5 r t6] e5 a by (simp add: s6_def r_def)
    have c1: "fst (checkRateLimit now s1 ident) =
        \<lparr>isLimited = False, remaining = 4, resetTimeOut = r\<rparr>"
      using checkRateLimit_live [of s1 ident _ now] e1 a by (simp add: r_def)
    have c2: "fst (checkRateLimit now s2 ident) =
        \<lparr>isLimited = False, remaining = 3, resetTimeOut = r\<rparr>"
      using checkRateLimit_live [of s2 ident _ now] e2 a by (simp add: r_def)
    have c3: "fst (checkRateLimit now s3 ident) =
        \<lparr>isLimited = False, remaining = 2, resetTimeOut = r\<rparr>"
      using checkRateLimit_live [of s3 ident _ now] e3 a by (simp add: r_def)
    have c4: "fst (checkRateLimit now s4 ident) =
        \<lparr>isLimited = False, remaining = 1, resetTimeOut = r\<rparr>"
      using checkRateLimit_live [of s4 ident _ now] e4 a by (simp add: r_def)
    have c5: "fst (checkRateLimit now s5 ident) =
        \<lparr>isLimited = True, remaining = 0, resetTimeOut = r\<rparr>"
      using checkRateLimit_live [of s5 ident _ now] e5 a by (simp add: r_def)
    have c6: "fst (checkRateLimit now s6 ident) =
        \<lparr>isLimited = True, remaining = 0, resetTimeOut = r\<rparr>"
      using checkRateLimit_live [of s6 ident _ now] e6 a by (simp add: r_def)
    show ?thesis
      using c1 c2 c3 c4 c5 c6
      unfolding Let_def s1_def s2_def s3_def s4_def s5_def s6_def r_def by simp
  qed
  have live: "fst (checkRateLimit tm st idn) =
        \<lparr>isLimited = (count entry \<ge> 5), remaining = max 0 (5 - count entry),
         resetTimeOut = resetTime entry\<rparr>"
    if "st idn = Some entry \<and> \<not> tm > resetTime entry"
    using that checkRateLimit_live [of st idn entry tm] by simp
  from fresh live show ?thesis by blast
qed

theorem rate_limit_five_attempts_witness:
  "(let s1 = incrementRateLimit 1000 Map.empty ''10.0.0.7'';
        s2 = incrementRateLimit 2000 s1 ''10.0.0.7'';
        s3 = incrementRateLimit 3000 s2 ''10.0.0.7'';
        s4 = incrementRateLimit 4000 s3 ''10.0.0.7'';
        s5 = incrementRateLimit 5000 s4 ''10.0.0.7'';
        s6 = incrementRateLimit 6000 s5 ''10.0.0.7''
    in fst (checkRateLimit 7000 s1 ''10.0.0.7'') =
         \<lparr>isLimited = False, remaining = 4, resetTimeOut = 901000\<rparr> \<and>
       fst (checkRateLimit 7000 s2 ''10.0.0.7'') =
         \<lparr>isLimited = False, remaining = 3, resetTimeOut = 901000\<rparr> \<and>
       fst (checkRateLimit 7000 s3 ''10.0.0.7'') =
         \<lparr>isLimited = False, remaining = 2, resetTimeOut = 901000\<rparr> \<and>
       fst (checkRateLimit 7000 s4 ''10.0.0.7'') =
         \<lparr>isLimited = False, remaining = 1, resetTimeOut = 901000\<rparr> \<and>
       fst (checkRateLimit 7000 s5 ''10.0.0.7'') =
         \<lparr>isLimited = True, remaining = 0, resetTimeOut = 901000\<rparr> \<and>
       fst (checkRateLimit 7000 s6 ''10.0.0.7'') =
         \<lparr>isLimited = True, remaining = 0, resetTimeOut = 901000\<rparr>) \<and>
   fst (checkRateLimit 50 [''10.0.0.7'' \<mapsto> \<lparr>count = 3, resetTime = 60\<rparr>] ''10.0.0.7'') =
     \<lparr>isLimited = False, remaining = 2, resetTimeOut = 60\<rparr>"
  using rate_limit_five_attempts
    [of Map.empty "''10.0.0.7''" 2000 1000 3000 4000 5000 6000 7000
        "[''10.0.0.7'' \<mapsto> \<lparr>count = 3, resetTime = 60\<rparr>]" "''10.0.0.7''"
        "\<lparr>count = 3, resetTime = 60\<rparr>" 50]
  by (simp add: WINDOW_MS_def)

subsection \<open>Path validation\<close>

lemma stripLeadingDotDots_absolute:
  "prefix ''/'' s \<Longrightarrow> stripLeadingDotDots s = s"
  by (cases s rule: stripLeadingDotDots.cases) (auto simp: prefix_def)

lemma path_normalize_absolute:
  "prefix ''/'' p \<Longrightarrow> prefix ''/'' (path_normalize p)"
  by (auto simp: path_normalize_def Let_def prefix_def)

text \<open>
  Claim C6, as stated: \<^verbatim>\<open>validateFilePath\<close> fails with the traversal error for every
  string that contains \<^verbatim>\<open>..\<close>. The null-byte check comes first, so a string that holds
  both fails with the null-byte error.
\<close>

theorem validateFilePath_null_byte_counterexample:
  "str_includes [CHR ''a'', CHR 0x00, CHR ''.'', CHR ''.''] ''..'' \<and>
   validateFilePath [CHR ''a'', CHR 0x00, CHR ''.'', CHR ''.''] = Inl NullByteDetected \<and>
   validateFilePath [CHR ''a'', CHR 0x00, CHR ''.'', CHR ''.''] \<noteq> Inl TraversalDetected"
  by (simp add: validateFilePath_def)

text \<open>
  Claim C6, amended. \<^verbatim>\<open>validateFilePath\<close> throws for every string that contains \<^verbatim>\<open>..\<close>,
  whatever surrounds it: the traversal error when the string has no null byte, the
  null-byte error when it has one. It also throws for every path that begins with \<^verbatim>\<open>/\<close>
  and for every path whose normal form begins with \<^verbatim>\<open>/\<close>.
\<close>

theorem validateFilePath_rejects_traversal:
  "(str_includes p ''..'' \<longrightarrow>
      isl (validateFilePath p) \<and>
      (\<not> str_includes p [CHR 0x00] \<longrightarrow> validateFilePath p = Inl TraversalDetected) \<and>
      (str_includes p [CHR 0x00] \<longrightarrow> validateFilePath p = Inl NullByteDetected)) \<and>
   (prefix ''/'' q \<or> prefix ''/'' (path_normalize q) \<longrightarrow> isl (validateFilePath q))"
proof -
  have dots: "isl (validateFilePath p) \<and>
      (\<not> str_includes p [CHR 0x00] \<longrightarrow> validateFilePath p = Inl TraversalDetected) \<and>
      (str_includes p [CHR 0x00] \<longrightarrow> validateFilePath p = Inl NullByteDetected)"
    if d: "str_includes p ''..''"
  proof -
    from d have ne: "p \<noteq> []" by auto
    then show ?thesis
      using d by (simp add: validateFilePath_def)
  qed
  have abs: "isl (validateFilePath q)"
    if "prefix ''/'' q \<or> prefix ''/'' (path_normalize q)"
  proof -
    from that have "prefix ''/'' (path_normalize q)"
      using path_normalize_absolute by blast
    then have "prefix ''/'' (stripLeadingDotDots (path_normalize q))"
      by (simp add: stripLeadingDotDots_absolute)
    then show ?thesis
      by (simp add: validateFilePath_def Let_def)
  qed
  from dots abs show ?thesis by blast
qed

theorem validateFilePath_rejects_traversal_witness:
  "validateFilePath ''blog/../../etc/passwd'' = Inl TraversalDetected \<and>
   validateFilePath [CHR ''.'', CHR ''.'', CHR 0x00] = Inl NullByteDetected \<and>
   isl (validateFilePath ''/etc/passwd'')"
  using validateFilePath_rejects_traversal [of "''blog/../../etc/passwd''" "''/etc/passwd''"]
        validateFilePath_rejects_traversal [of "[CHR ''.'', CHR ''.'', CHR 0x00]" "''/etc/passwd''"]
  by simp

subsection \<open>Credential check\<close>

text \<open>
  Claim C2, as stated: \<^verbatim>\<open>validateCredentials\<close> throws for every input when the admin
  credentials are not configured. It does not: the format check of the input comes first
  and turns a malformed user name into the result \<open>false\<close>.
\<close>

theorem validateCredentials_invalid_input_counterexample:
  "validateCredentials
     \<lparr>CMS_ADMIN_USERNAME = None, CMS_ADMIN_PASSWORD = None, CMS_SESSION_SECRET = None\<rparr>
     ''admin@test'' ''password'' = Inr False"
  by code_simp

text \<open>
  Claim C2, amended. For every input that passes \<^verbatim>\<open>validateUsername\<close> and
  \<^verbatim>\<open>validatePassword\<close>, \<^verbatim>\<open>validateCredentials\<close> throws the configuration error when the
  admin user name or the admin password is absent; for every input that fails one of the
  two checks it returns \<open>false\<close>, configured or not.
\<close>

theorem validateCredentials_misconfigured:
  "(validateUsername username = Inr True \<and> validatePassword password = Inr True \<and>
    (CMS_ADMIN_USERNAME e = None \<or> CMS_ADMIN_PASSWORD e = None) \<longrightarrow>
      validateCredentials e username password = Inl CredentialsNotConfigured) \<and>
   (isl (validateUsername u) \<or> isl (validatePassword p) \<longrightarrow>
      validateCredentials e' u p = Inr False)"
  by (auto simp: validateCredentials_def split: sum.splits option.splits)

theorem validateCredentials_misconfigured_witness:
  "validateCredentials
     \<lparr>CMS_ADMIN_USERNAME = None, CMS_ADMIN_PASSWORD = None, CMS_SESSION_SECRET = None\<rparr>
     ''admin'' ''password'' = Inl CredentialsNotConfigured \<and>
   validateCredentials
     \<lparr>CMS_ADMIN_USERNAME = None, CMS_ADMIN_PASSWORD = None, CMS_SESSION_SECRET = None\<rparr>
     '''' ''password'' = Inr False"
proof -
  have u: "validateUsername ''admin'' = Inr True" by code_simp
  have p: "validatePassword ''password'' = Inr True" by code_simp
  have b: "isl (validateUsername '''')" by code_simp
  show ?thesis
    using validateCredentials_misconfigured
      [of "''admin''" "''password''"
          "\<lparr>CMS_ADMIN_USERNAME = None, CMS_ADMIN_PASSWORD = None, CMS_SESSION_SECRET = None\<rparr>"
          "''''" "''password''"
          "\<lparr>CMS_ADMIN_USERNAME = None, CMS_ADMIN_PASSWORD = None, CMS_SESSION_SECRET = None\<rparr>"]
      u p b
    by simp
qed

subsection \<open>Frontmatter sanitization\<close>












subsection \<open>Sessions\<close>

text \<open>
  Claim C7. \<^verbatim>\<open>verifySession\<close> never throws. Whatever the token, the configuration and the
  behaviour of \<^verbatim>\<open>jwtVerify\<close>, it returns; and it returns \<^verbatim>\<open>null\<close> when the secret is
  unusable, when \<^verbatim>\<open>jwtVerify\<close> throws (bad signature, expired or malformed token) and when
  the payload lacks a string \<^verbatim>\<open>username\<close> or a numeric \<^verbatim>\<open>exp\<close>.
\<close>

theorem verifySession_never_throws:
  "\<not> isl (verifySession jwtVerify e token) \<and>
   (isl (getSecretKey e) \<longrightarrow> verifySession jwtVerify e token = Inr None) \<and>
   (getSecretKey e = Inr key \<and> isl (jwtVerify token key) \<longrightarrow>
      verifySession jwtVerify e token = Inr None) \<and>
   (getSecretKey e = Inr key \<and> jwtVerify token key = Inr payload \<and>
    \<not> (isStringProp (map_of payload ''username'') \<and> isNumberProp (map_of payload ''exp'')) \<longrightarrow>
      verifySession jwtVerify e token = Inr None)"
  by (auto simp: verifySession_def try_catch_def split: sum.splits)

theorem verifySession_never_throws_witness:
  "verifySession rejectingVerify (devEnv\<lparr>CMS_SESSION_SECRET := None\<rparr>) ''abc'' = Inr None \<and>
   verifySession rejectingVerify devEnv ''abc'' = Inr None \<and>
   verifySession decodingVerify devEnv ''abc'' = Inr None"
proof -
  have k: "getSecretKey devEnv = Inr (utf8 ''0123456789abcdef0123456789abcdef'')"
    by (simp add: getSecretKey_def devEnv_def)
  have n: "isl (getSecretKey (devEnv\<lparr>CMS_SESSION_SECRET := None\<rparr>))"
    by (simp add: getSecretKey_def devEnv_def)
  have r: "isl (rejectingVerify ''abc'' (utf8 ''0123456789abcdef0123456789abcdef''))"
    by (simp add: rejectingVerify_def)
  have d: "decodingVerify ''abc'' (utf8 ''0123456789abcdef0123456789abcdef'') =
             Inr [(''sub'', JString ''abc'')]"
    by (simp add: decodingVerify_def)
  have m: "\<not> (isStringProp (map_of [(''sub'', JString ''abc'')] ''username'') \<and>
              isNumberProp (map_of [(''sub'', JString ''abc'')] ''exp''))"
    by (simp add: isStringProp_def)
  show ?thesis
    using verifySession_never_throws
            [of rejectingVerify "devEnv\<lparr>CMS_SESSION_SECRET := None\<rparr>" "''abc''"]
          verifySession_never_throws
            [of rejectingVerify devEnv "''abc''" "utf8 ''0123456789abcdef0123456789abcdef''"]
          verifySession_never_throws
            [of decodingVerify devEnv "''abc''" "utf8 ''0123456789abcdef0123456789abcdef''"
                "[(''sub'', JString ''abc'')]"]
          k n r d m
    by simp
qed

subsection \<open>Deleting a file that does not exist\<close>

text \<open>
  Claim C4, as stated: in each of the three providers \<^verbatim>\<open>deleteFile\<close> fails when no file is
  at the path. The R2 provider sends \<^verbatim>\<open>DeleteObject\<close> without looking the key up, and the
  command succeeds on a key that holds nothing.
\<close>

theorem r2_deleteFile_absent_counterexample:
  "[''content/blog/other.md'' \<mapsto> ''text''] (getR2Path ''content'' ''blog/missing.md'') = None \<and>
   CloudflareR2Storage_deleteFile ''content'' ''blog/missing.md''
       [''content/blog/other.md'' \<mapsto> ''text''] =
     (Inr (), [''content/blog/other.md'' \<mapsto> ''text''])"
  by (simp add: CloudflareR2Storage_deleteFile_def s3_DeleteObject_def getR2Path_def)

text \<open>
  Claim C4, amended. When nothing is at the path, \<^verbatim>\<open>deleteFile\<close> of the local provider
  fails with \<^verbatim>\<open>ENOENT\<close> and \<^verbatim>\<open>deleteFile\<close> of the GitHub provider fails with the 404 of
  its lookup of the file's \<^verbatim>\<open>sha\<close>, both leaving the backend as it was; \<^verbatim>\<open>deleteFile\<close> of
  the R2 provider succeeds and leaves the bucket as it was.
\<close>

theorem deleteFile_absent:
  "(fs (getFullPath cwd baseDir filePath) = None \<longrightarrow>
      LocalStorage_deleteFile cwd baseDir filePath fs = (Inl ENOENT, fs)) \<and>
   (repo (getGitHubPath ghDir ghPath) = None \<longrightarrow>
      GitHubStorage_deleteFile ghDir ghPath repo = (Inl (HttpError 404), repo)) \<and>
   (b (getR2Path r2Dir r2Path) = None \<longrightarrow>
      CloudflareR2Storage_deleteFile r2Dir r2Path b = (Inr (), b))"
  by (auto simp: LocalStorage_deleteFile_def fs_unlink_def GitHubStorage_deleteFile_def
        octokit_getContent_def CloudflareR2Storage_deleteFile_def s3_DeleteObject_def)

theorem deleteFile_absent_witness:
  "LocalStorage_deleteFile ''/srv/app'' ''public/content'' ''blog/missing.md'' Map.empty =
     (Inl ENOENT, Map.empty) \<and>
   GitHubStorage_deleteFile ''public/content'' ''blog/missing.md'' Map.empty =
     (Inl (HttpError 404), Map.empty) \<and>
   CloudflareR2Storage_deleteFile ''content'' ''blog/missing.md'' Map.empty =
     (Inr (), Map.empty)"
  using deleteFile_absent
    [of Map.empty "''/srv/app''" "''public/content''" "''blog/missing.md''"
        Map.empty "''public/content''" "''blog/missing.md''"
        Map.empty "''content''" "''blog/missing.md''"]
  by simp

subsection \<open>Saving content\<close>

lemma byteLength_ascii:
  "list_all (\<lambda>c. (of_char c :: nat) < 128) s \<Longrightarrow> byteLength s = length s"
  by (induction s) (simp_all add: byteLength_def utf8_def)

lemma byteLength_replicate:
  "(of_char c :: nat) < 128 \<Longrightarrow> byteLength (replicate n c @ s) = n + byteLength s"
  by (induction n) (simp_all add: byteLength_def utf8_def)

lemma byteLength_oversizedContent:
  "byteLength (oversizedContent @ ''\<newline>'') = 10 * 1024 * 1024 + 1"
proof -
  have "byteLength (replicate n (CHR ''a'') @ ''\<newline>'') = n + 1" for n
    by (subst byteLength_replicate) (simp_all add: byteLength_def utf8_def)
  then show ?thesis
    unfolding oversizedContent_def by blast
qed

lemma validateFilePath_blog_post: "validateFilePath ''blog/post.md'' = Inr ''blog/post.md''"
  by code_simp

text \<open>
  Claim C8, as stated: whenever the serialized output is at most 10 MiB,
  \<^verbatim>\<open>saveMarkdownContent\<close> writes it. For a path that \<^verbatim>\<open>validateFilePath\<close> rejects it does
  not: the call fails with the path error and the provider receives nothing.
\<close>

theorem saveMarkdownContent_invalid_path_counterexample:
  "stringifyMarkdown plainMatter (sanitizeFrontmatter []) ''body'' = Inr ''body\<newline>'' \<and>
   byteLength ''body\<newline>'' \<le> MAX_FILE_SIZE \<and>
   saveMarkdownContent (Inr recordingProvider) plainMatter ''../secret.md'' [] ''body'' [] =
     (Inl TraversalDetected, [])"
proof -
  have s: "stringifyMarkdown plainMatter (sanitizeFrontmatter []) ''body'' = Inr ''body\<newline>''"
    by (simp add: stringifyMarkdown_def plainMatter_def)
  have l: "byteLength ''body\<newline>'' \<le> MAX_FILE_SIZE"
    by (subst byteLength_ascii) (simp_all add: MAX_FILE_SIZE_def)
  have v: "validateFilePath ''../secret.md'' = Inl TraversalDetected"
    by code_simp
  have "saveMarkdownContent (Inr recordingProvider) plainMatter ''../secret.md'' [] ''body'' [] =
     (Inl TraversalDetected, [])"
    by (simp add: saveMarkdownContent_def v)
  with s l show ?thesis by simp
qed

text \<open>
  Claim C8, amended. For a path that \<^verbatim>\<open>validateFilePath\<close> accepts and a frontmatter that
  serializes: when the serialized output is larger than 10 MiB, \<^verbatim>\<open>saveMarkdownContent\<close>
  fails with the size error and the state of the provider is unchanged, whatever the
  provider; otherwise it is the call of \<^verbatim>\<open>writeFile\<close> on the validated path with the
  serialized output. For a path that \<^verbatim>\<open>validateFilePath\<close> rejects it fails with the path
  error and the state of the provider is unchanged.
\<close>

theorem saveMarkdownContent_size_ceiling:
  "(validateFilePath filePath = Inr validatedPath \<and>
    stringifyMarkdown gm (sanitizeFrontmatter data) content = Inr markdown \<longrightarrow>
      (byteLength markdown > MAX_FILE_SIZE \<longrightarrow>
         saveMarkdownContent getStorageProvider gm filePath data content w =
           (Inl (ContentSizeExceeded (byteLength markdown)), w)) \<and>
      (byteLength markdown \<le> MAX_FILE_SIZE \<longrightarrow>
         saveMarkdownContent (Inr storage) gm filePath data content w =
           writeFile storage validatedPath markdown w)) \<and>
   (validateFilePath filePath = Inl err \<longrightarrow>
      saveMarkdownContent getStorageProvider gm filePath data content w = (Inl err, w))"
  by (simp add: saveMarkdownContent_def Let_def)

theorem saveMarkdownContent_size_ceiling_witness:
  "saveMarkdownContent (Inr recordingProvider) plainMatter ''blog/post.md''
      [(''title'', JString ''T'')] oversizedContent [] =
     (Inl (ContentSizeExceeded (10 * 1024 * 1024 + 1)), []) \<and>
   saveMarkdownContent (Inr recordingProvider) plainMatter ''blog/post.md''
      [(''title'', JString ''T'')] ''body'' [] =
     (Inr (), [WriteFile ''blog/post.md'' ''body\<newline>'']) \<and>
   saveMarkdownContent (Inr recordingProvider) plainMatter ''/etc/passwd''
      [(''title'', JString ''T'')] ''body'' [] =
     (Inl TraversalDetected, [])"
proof -
  let ?d = "[(''title'', JString ''T'')]"
  have sb: "stringifyMarkdown plainMatter (sanitizeFrontmatter ?d) oversizedContent =
      Inr (oversizedContent @ ''\<newline>'')"
    by (simp add: stringifyMarkdown_def plainMatter_def)
  have ss: "stringifyMarkdown plainMatter (sanitizeFrontmatter ?d) ''body'' = Inr ''body\<newline>''"
    by (simp add: stringifyMarkdown_def plainMatter_def)
  have ls: "byteLength ''body\<newline>'' = 5"
    by (subst byteLength_ascii) simp_all
  have bad: "validateFilePath ''/etc/passwd'' = Inl TraversalDetected"
    by code_simp
  have big: "saveMarkdownContent (Inr recordingProvider) plainMatter ''blog/post.md'' ?d
      oversizedContent [] = (Inl (ContentSizeExceeded (10 * 1024 * 1024 + 1)), [])"
    using saveMarkdownContent_size_ceiling
      [of "''blog/post.md''" "''blog/post.md''" plainMatter ?d oversizedContent
          "oversizedContent @ ''\<newline>''" "Inr recordingProvider" "[]"]
      validateFilePath_blog_post sb byteLength_oversizedContent
    by (simp add: MAX_FILE_SIZE_def)
  have small: "saveMarkdownContent (Inr recordingProvider) plainMatter ''blog/post.md'' ?d ''body'' [] =
      (Inr (), [WriteFile ''blog/post.md'' ''body\<newline>''])"
    using saveMarkdownContent_size_ceiling
      [of "''blog/post.md''" "''blog/post.md''" plainMatter ?d "''body''" "''body\<newline>''"
          _ "[]" recordingProvider]
      validateFilePath_blog_post ss ls
    by (simp add: MAX_FILE_SIZE_def recordingProvider_def)
  have rejected: "saveMarkdownContent (Inr recordingProvider) plainMatter ''/etc/passwd'' ?d ''body'' [] =
      (Inl TraversalDetected, [])"
    using saveMarkdownContent_size_ceiling
      [of "''/etc/passwd''" _ plainMatter ?d "''body''" _ "Inr recordingProvider" "[]" _
          TraversalDetected]
      bad
    by simp
  from big small rejected show ?thesis by simp
qed

subsection \<open>Paths that reach the provider\<close>

text \<open>The five functions of \<^verbatim>\<open>content/markdown.ts\<close> stop at a path that
  \<^verbatim>\<open>validateFilePath\<close> rejects, before they ask for the provider.\<close>

lemma markdown_operations_validate:
  assumes "validateFilePath p = Inl err" and "p \<noteq> []"
  shows "getMarkdownContent getStorageProvider gm p w = (Inl err, w)"
    and "saveMarkdownContent getStorageProvider gm p data content w = (Inl err, w)"
    and "deleteMarkdownContent getStorageProvider p w = (Inl err, w)"
    and "listMarkdownFiles getStorageProvider p w = (Inl err, w)"
    and "markdownFileExists getStorageProvider p w = (Inl err, w)"
  using assms
  by (simp_all add: getMarkdownContent_def saveMarkdownContent_def deleteMarkdownContent_def
        listMarkdownFiles_def markdownFileExists_def)

text \<open>
  Claim C1 says that every path handed to a provider method has been accepted by
  \<^verbatim>\<open>validateFilePath\<close>. The functions of \<^verbatim>\<open>content/markdown.ts\<close> validate first
  (\<open>markdown_operations_validate\<close>); \<^verbatim>\<open>listDirectory\<close>,
  \<^verbatim>\<open>getCollectionItem\<close> and \<^verbatim>\<open>uploadFile\<close> do not. On the recording provider each of them
  hands over a path that \<^verbatim>\<open>validateFilePath\<close> rejects, where \<^verbatim>\<open>listMarkdownFiles\<close>, given
  the same directory, stops before the provider.
\<close>

theorem unvalidated_path_reaches_provider:
  "validateFilePath ''../..'' = Inl TraversalDetected \<and>
   listDirectory (Inr recordingProvider) ''../..'' [] = (Inr [], [ListFiles ''../..'']) \<and>
   listMarkdownFiles (Inr recordingProvider) ''../..'' [] = (Inl TraversalDetected, []) \<and>
   validateFilePath ''../../private/notes.md'' = Inl TraversalDetected \<and>
   snd (getCollectionItem (Inr recordingProvider) plainMatter ''../../private'' ''notes'' []) =
     [Exists ''../../private/notes.md'', ReadFile ''../../private/notes.md''] \<and>
   validateFilePath ''../evil-1700000000000.png'' = Inl TraversalDetected \<and>
   snd (upload_uploadFile (Inr recordingProvider) 1700000000000 ''../evil.png'' [] []) =
     [UploadFile ''../evil-1700000000000.png'' []]"
proof -
  have ts: "showNat 1700000000000 = ''1700000000000''"
    by (simp add: showNat.simps)
  have v1: "validateFilePath ''../..'' = Inl TraversalDetected" by code_simp
  have v2: "validateFilePath ''../../private/notes.md'' = Inl TraversalDetected" by code_simp
  have v3: "validateFilePath ''../evil-1700000000000.png'' = Inl TraversalDetected" by code_simp
  have l1: "listDirectory (Inr recordingProvider) ''../..'' [] = (Inr [], [ListFiles ''../..''])"
    by (simp add: listDirectory_def recordingProvider_def)
  have l2: "listMarkdownFiles (Inr recordingProvider) ''../..'' [] = (Inl TraversalDetected, [])"
    by (simp add: listMarkdownFiles_def v1)
  have g: "snd (getCollectionItem (Inr recordingProvider) plainMatter ''../../private'' ''notes'' []) =
     [Exists ''../../private/notes.md'', ReadFile ''../../private/notes.md'']"
    by (simp add: getCollectionItem_def recordingProvider_def parseMarkdown_def plainMatter_def Let_def)
  have e: "last (str_split ''../evil.png'' (CHR ''.'')) = ''png''" by code_simp
  have n: "str_replace ''../evil.png'' ''.png'' [] = ''../evil''" by code_simp
  have u: "snd (upload_uploadFile (Inr recordingProvider) 1700000000000 ''../evil.png'' [] []) =
     [UploadFile ''../evil-1700000000000.png'' []]"
    by (simp add: upload_uploadFile_def recordingProvider_def Let_def e n ts)
  from v1 v2 v3 l1 l2 g u show ?thesis by simp
qed

subsection \<open>Login endpoint\<close>

lemma handleLogin_cases:
  "handleLogin signJWT e tCheck tRetry tIncrement tSession request store = (resp, store') \<Longrightarrow>
   store1 = snd (checkRateLimit tCheck store (clientIp request)) \<Longrightarrow>
   (status resp = 401 \<and> store' = incrementRateLimit tIncrement store1 (clientIp request) \<and>
      (\<exists>body. json request = Inr body \<and> body \<noteq> JsonNull \<and>
         validateCredentialsAt e (getProperty body ''username'') (getProperty body ''password'') =
           Inr False)) \<or>
   (status resp \<noteq> 401 \<and> (store' = store1 \<or> store' = resetRateLimit store1 (clientIp request)))"
  by (cases "json request"; cases "checkRateLimit tCheck store (clientIp request)")
     (auto simp: handleLogin_def Let_def jsonResponse_def destructureBody_def
           split: sum.splits if_splits prod.splits)

text \<open>
  Claim C10, as stated: every request whose parsed body lacks the user name or the
  password is answered 400 when the requester is not rate-limited. The body \<^verbatim>\<open>null\<close> has
  neither field, the destructuring of it throws, and the answer is the 500 of the
  \<^verbatim>\<open>catch\<close> block.
\<close>

theorem handleLogin_null_body_counterexample:
  "json loginNullBody = Inr JsonNull \<and>
   \<not> isLimited (fst (checkRateLimit 1000 Map.empty (clientIp loginNullBody))) \<and>
   status (fst (handleLogin stubSign devEnv 1000 1000 1000 1000 loginNullBody Map.empty)) = 500"
proof -
  have ip: "clientIp loginNullBody = ''203.0.113.9''"
    by (simp add: clientIp_def loginNullBody_def orElse_def)
  have chk: "checkRateLimit 1000 Map.empty ''203.0.113.9'' =
      (\<lparr>isLimited = False, remaining = 5, resetTimeOut = 901000\<rparr>,
       [''203.0.113.9'' \<mapsto> \<lparr>count = 0, resetTime = 901000\<rparr>])"
    by (simp add: checkRateLimit_def MAX_ATTEMPTS_def WINDOW_MS_def)
  have j: "json loginNullBody = Inr JsonNull"
    by (simp add: loginNullBody_def)
  have "status (fst (handleLogin stubSign devEnv 1000 1000 1000 1000 loginNullBody Map.empty)) = 500"
    by (simp add: handleLogin_def ip chk j destructureBody_def jsonResponse_def Let_def)
  with ip chk j show ?thesis by simp
qed

text \<open>
  Claim C10, amended. When the requester is not rate-limited and the parsed body is not
  \<^verbatim>\<open>null\<close> and lacks the user name or the password, \<^verbatim>\<open>handleLogin\<close> answers 400 and
  leaves the store as \<^verbatim>\<open>checkRateLimit\<close> left it: the attempt counter is not incremented.
  For every request the store is incremented exactly in the 401 answer, which is given
  only when \<^verbatim>\<open>validateCredentials\<close> has returned \<open>false\<close>; in every other answer the store
  is the one \<^verbatim>\<open>checkRateLimit\<close> left, or that one with the requester's entry removed.
\<close>

theorem handleLogin_missing_field:
  "(\<not> isLimited (fst (checkRateLimit tCheck store (clientIp request))) \<and>
    json request = Inr body \<and> body \<noteq> JsonNull \<and>
    (getProperty body ''username'' = None \<or> getProperty body ''password'' = None) \<longrightarrow>
      status (fst (handleLogin signJWT e tCheck tRetry tIncrement tSession request store)) = 400 \<and>
      snd (handleLogin signJWT e tCheck tRetry tIncrement tSession request store) =
        snd (checkRateLimit tCheck store (clientIp request))) \<and>
   (status (fst (handleLogin signJWT e tCheck tRetry tIncrement tSession request store)) = 401 \<longrightarrow>
      snd (handleLogin signJWT e tCheck tRetry tIncrement tSession request store) =
        incrementRateLimit tIncrement (snd (checkRateLimit tCheck store (clientIp request)))
          (clientIp request) \<and>
      (\<exists>b. json request = Inr b \<and> b \<noteq> JsonNull \<and>
         validateCredentialsAt e (getProperty b ''username'') (getProperty b ''password'') =
           Inr False)) \<and>
   (status (fst (handleLogin signJWT e tCheck tRetry tIncrement tSession request store)) \<noteq> 401 \<longrightarrow>
      snd (handleLogin signJWT e tCheck tRetry tIncrement tSession request store) =
        snd (checkRateLimit tCheck store (clientIp request)) \<or>
      snd (handleLogin signJWT e tCheck tRetry tIncrement tSession request store) =
        resetRateLimit (snd (checkRateLimit tCheck store (clientIp request))) (clientIp request))"
proof -
  let ?h = "handleLogin signJWT e tCheck tRetry tIncrement tSession request store"
  let ?ip = "clientIp request"
  let ?s1 = "snd (checkRateLimit tCheck store ?ip)"
  have missing: "status (fst ?h) = 400 \<and> snd ?h = ?s1"
    if "\<not> isLimited (fst (checkRateLimit tCheck store ?ip)) \<and> json request = Inr body \<and>
        body \<noteq> JsonNull \<and>
        (getProperty body ''username'' = None \<or> getProperty body ''password'' = None)"
    using that
    by (cases "checkRateLimit tCheck store ?ip")
       (auto simp: handleLogin_def Let_def jsonResponse_def destructureBody_def falsy_def)
  obtain resp store' where h: "?h = (resp, store')"
    by (cases ?h)
  note c = handleLogin_cases [OF h refl]
  have failed: "snd ?h = incrementRateLimit tIncrement ?s1 ?ip \<and>
      (\<exists>b. json request = Inr b \<and> b \<noteq> JsonNull \<and>
         validateCredentialsAt e (getProperty b ''username'') (getProperty b ''password'') =
           Inr False)"
    if "status (fst ?h) = 401"
    using that c h by auto
  have other: "snd ?h = ?s1 \<or> snd ?h = resetRateLimit ?s1 ?ip"
    if "status (fst ?h) \<noteq> 401"
    using that c h by auto
  from missing failed other show ?thesis
    by blast
qed

theorem handleLogin_missing_field_witness:
  "status (fst (handleLogin stubSign devEnv 1000 1000 1000 1000 loginWithoutPassword Map.empty)) = 400 \<and>
   snd (handleLogin stubSign devEnv 1000 1000 1000 1000 loginWithoutPassword Map.empty) ''203.0.113.9'' =
     Some \<lparr>count = 0, resetTime = 901000\<rparr> \<and>
   status (fst (handleLogin stubSign devEnv 1000 1000 2000 2000 loginWrongPassword Map.empty)) = 401 \<and>
   snd (handleLogin stubSign devEnv 1000 1000 2000 2000 loginWrongPassword Map.empty) ''203.0.113.9'' =
     Some \<lparr>count = 1, resetTime = 901000\<rparr>"
proof -
  let ?b1 = "JsonObject [(''username'', JsonString ''admin'')]"
  let ?b2 = "JsonObject [(''username'', JsonString ''admin''), (''password'', JsonString ''guess'')]"
  have ip1: "clientIp loginWithoutPassword = ''203.0.113.9''"
    by (simp add: clientIp_def loginWithoutPassword_def orElse_def)
  have ip2: "clientIp loginWrongPassword = ''203.0.113.9''"
    by (simp add: clientIp_def loginWrongPassword_def orElse_def)
  have chk: "checkRateLimit 1000 Map.empty ''203.0.113.9'' =
      (\<lparr>isLimited = False, remaining = 5, resetTimeOut = 901000\<rparr>,
       [''203.0.113.9'' \<mapsto> \<lparr>count = 0, resetTime = 901000\<rparr>])"
    by (simp add: checkRateLimit_def MAX_ATTEMPTS_def WINDOW_MS_def)
  have j1: "json loginWithoutPassword = Inr ?b1"
    by (simp add: loginWithoutPassword_def)
  have j2: "json loginWrongPassword = Inr ?b2"
    by (simp add: loginWrongPassword_def)
  have p1: "getProperty ?b1 ''password'' = None"
    by (simp add: getProperty_def)
  have cred: "validateCredentials devEnv ''admin'' ''guess'' = Inr False"
    by code_simp
  have st: "status (fst (handleLogin stubSign devEnv 1000 1000 2000 2000 loginWrongPassword Map.empty)) = 401"
    by (simp add: handleLogin_def ip2 chk j2 cred jsonResponse_def Let_def destructureBody_def
          getProperty_def falsy_def validateCredentialsAt_def)
  have inc: "incrementRateLimit 2000 [''203.0.113.9'' \<mapsto> \<lparr>count = 0, resetTime = 901000\<rparr>]
      ''203.0.113.9'' ''203.0.113.9'' = Some \<lparr>count = 1, resetTime = 901000\<rparr>"
    by (simp add: incrementRateLimit_def)
  show ?thesis
    using handleLogin_missing_field
            [of 1000 Map.empty loginWithoutPassword ?b1 stubSign devEnv 1000 1000 1000]
          handleLogin_missing_field
            [of 1000 Map.empty loginWrongPassword _ stubSign devEnv 1000 2000 2000]
          ip1 ip2 chk j1 j2 p1 st inc
    by simp
qed

end
